theory Spec2Isabelle
  imports Main "HOL-Library.Sublist"
begin

section \<open>Python strings\<close>

text \<open>
  The server is Python; its texts are \<open>str\<close> values. They are modelled as \<^typ>\<open>string\<close>,
  one \<^typ>\<open>char\<close> per code point, so the model covers the texts whose code points lie
  below 256 (ASCII and Latin-1). The string methods the code calls are written out below
  with Python's behaviour on that range.
\<close>

definition lower_char :: "char \<Rightarrow> char" where
  \<comment> \<open>\<open>str.lower\<close> on one character: A..Z, and the Latin-1 capitals 0xC0..0xDE except the
      multiplication sign 0xD7, move up by 32; everything else stays.\<close>
  "lower_char c =
     (let n = (of_char c :: nat)
      in if (65 \<le> n \<and> n \<le> 90) \<or> (192 \<le> n \<and> n \<le> 222 \<and> n \<noteq> 215)
         then char_of (n + 32) else c)"

definition lower :: "string \<Rightarrow> string" where
  "lower s = map lower_char s"

definition is_space :: "char \<Rightarrow> bool" where
  \<comment> \<open>\<open>str.isspace\<close> below 256: TAB..CR, FS..US, space, NEL and the no-break space.\<close>
  "is_space c =
     (let n = (of_char c :: nat)
      in (9 \<le> n \<and> n \<le> 13) \<or> (28 \<le> n \<and> n \<le> 32) \<or> n = 133 \<or> n = 160)"

definition strip :: "string \<Rightarrow> string" where
  \<comment> \<open>\<open>s.strip()\<close>\<close>
  "strip s = rev (dropWhile is_space (rev (dropWhile is_space s)))"

fun str_in :: "string \<Rightarrow> string \<Rightarrow> bool" where
  \<comment> \<open>\<open>sub in s\<close>\<close>
  "str_in sub [] = (sub = [])"
| "str_in sub (c # cs) = (prefix sub (c # cs) \<or> str_in sub cs)"

definition endswith :: "string \<Rightarrow> string \<Rightarrow> bool" where
  \<comment> \<open>\<open>s.endswith(suf)\<close>\<close>
  "endswith s suf = suffix suf s"

definition endswith_any :: "string \<Rightarrow> string list \<Rightarrow> bool" where
  \<comment> \<open>\<open>s.endswith((suf1, suf2, ...))\<close>\<close>
  "endswith_any s sufs = list_ex (endswith s) sufs"

fun split_on :: "char \<Rightarrow> string \<Rightarrow> string list" where
  \<comment> \<open>\<open>s.split(sep)\<close> for a separator of one character: never empty.\<close>
  "split_on sep [] = [[]]"
| "split_on sep (c # cs) =
     (if c = sep then [] # split_on sep cs
      else (case split_on sep cs of
              [] \<Rightarrow> [[c]]
            | w # ws \<Rightarrow> (c # w) # ws))"

function replace :: "string \<Rightarrow> string \<Rightarrow> string \<Rightarrow> string" where
  \<comment> \<open>\<open>s.replace(old, new)\<close> for a non-empty \<open>old\<close>: the occurrences are taken from the
      left and do not overlap.\<close>
  "replace old new s =
     (if old = [] \<or> s = [] then s
      else if prefix old s then new @ replace old new (drop (length old) s)
      else hd s # replace old new (tl s))"
  by pat_completeness auto
termination
  by (relation "measure (\<lambda>(old, new, s). length s)") auto

declare replace.simps [simp del]

fun join :: "string \<Rightarrow> string list \<Rightarrow> string" where
  \<comment> \<open>\<open>sep.join(parts)\<close>\<close>
  "join sep [] = []"
| "join sep [p] = p"
| "join sep (p # q # ps) = p @ sep @ join sep (q # ps)"

section \<open>Step 5 of \<open>send_message\<close>: suppression and merge\<close>

definition generic_phrases :: "string list" where
  "generic_phrases =
     [''project documents do not contain'',
      ''i searched available resources but found no'',
      ''information not present'',
      ''to find this information, you would typically'',
      ''you would typically need to query'',
      ''no relevant chunks found'',
      ''analysis from structured data'',
      ''executed sql'']"

definition suppress_generic :: "string \<Rightarrow> string" where
  \<comment> \<open>projectRoutes.py, lines 605 to 620: the new value of \<open>rag_response_text\<close>.\<close>
  "suppress_generic rag_response_text =
     (if rag_response_text \<noteq> [] then
        (let lower_rag = lower rag_response_text
         in if list_ex (\<lambda>phrase. str_in phrase lower_rag) generic_phrases
            then ''No relevant chunks found''
            else rag_response_text)
      else rag_response_text)"

definition nl :: char where
  "nl = CHR 0x0A"

definition combine_responses :: "string \<Rightarrow> string \<Rightarrow> string" where
  \<comment> \<open>projectRoutes.py, lines 622 to 629: \<open>final_response\<close>.\<close>
  "combine_responses csv_response_text rag_response_text =
     (if csv_response_text \<noteq> [] \<and> rag_response_text \<noteq> [] then
        ''**Analysis from Structured Data:**'' @ [nl] @ csv_response_text @ [nl, nl]
          @ ''**Analysis from Documents:**'' @ [nl] @ rag_response_text
      else if csv_response_text \<noteq> [] then csv_response_text
      else if rag_response_text \<noteq> [] then rag_response_text
      else ''I searched available resources but found no relevant information or experienced an error.'')"

section \<open>TableLoader: \<open>SmartDataAgent._load_data_to_sqlite\<close>\<close>

text \<open>
  The schema document is the JSON object \<open>{"tables": [{"table_name": ..., ...}, ...]}\<close>.
  The loader reads \<open>table_name\<close> only. \<open>tables = None\<close> stands for a schema that is empty
  or has no \<open>"tables"\<close> key, the case the guard of line 48 excludes.
\<close>

record column_spec =
  col_name :: string
  col_definition :: string
  data_type :: string
  key_type :: string
  example :: string

record table_spec =
  table_name :: string
  table_definition :: string
  table_columns :: "column_spec list"

record schema =
  tables :: "table_spec list option"

definition backslash :: char where
  "backslash = CHR 0x5C"

definition simple_filename :: "string \<Rightarrow> string" where
  \<comment> \<open>line 44: \<open>path.split('/')[-1].split('\\')[-1].split('.')[0].lower()\<close>;
      \<open>split_on\<close> never returns the empty list, so \<open>last\<close> and \<open>hd\<close> are defined.\<close>
  "simple_filename path =
     lower (hd (split_on CHR ''.'' (last (split_on backslash (last (split_on CHR ''/'' path))))))"

fun match_schema :: "string \<Rightarrow> table_spec list \<Rightarrow> string option" where
  \<comment> \<open>lines 47 to 55: the loop over \<open>self.schema["tables"]\<close>, left at the first match.\<close>
  "match_schema simple [] = None"
| "match_schema simple (table_def # rest) =
     (let schema_name = lower (table_name table_def)
      in if str_in schema_name simple \<or> str_in simple schema_name
         then Some schema_name
         else match_schema simple rest)"

definition resolve_table_name :: "schema \<Rightarrow> string \<Rightarrow> string" where
  \<comment> \<open>lines 44 to 61; \<open>if matched_table_name:\<close> is false for \<open>None\<close> and for the empty string.\<close>
  "resolve_table_name sch path =
     (let simple = simple_filename path;
          matched_table_name =
            (case tables sch of None \<Rightarrow> None | Some ts \<Rightarrow> match_schema simple ts)
      in case matched_table_name of
           None \<Rightarrow> simple
         | Some name \<Rightarrow> if name \<noteq> [] then name else simple)"

datatype exception = Exception (str: string)
  \<comment> \<open>a raised Python exception \<open>e\<close>, with the text \<open>str(e)\<close>\<close>

definition is_loaded :: "string \<Rightarrow> bool" where
  \<comment> \<open>lines 35 to 40: the paths that are read; any other path is skipped.\<close>
  "is_loaded path = (endswith path ''.csv'' \<or> endswith_any path [''.xlsx'', ''.xls''])"

fun load_data_to_sqlite ::
  "(string \<Rightarrow> exception + 'df) \<Rightarrow> schema \<Rightarrow> string list \<Rightarrow> (string \<rightharpoonup> 'df)
     \<Rightarrow> exception + (string \<rightharpoonup> 'df)" where
  \<comment> \<open>lines 33 to 64. \<open>read_file\<close> is pandas reading the file (\<open>read_csv\<close> or
      \<open>read_excel\<close>); the store maps a table name to its contents, and
      \<open>to_sql(..., if_exists='replace')\<close> overwrites.\<close>
  "load_data_to_sqlite read_file sch [] conn = Inr conn"
| "load_data_to_sqlite read_file sch (path # file_paths) conn =
     (if is_loaded path then
        (case read_file path of
           Inl e \<Rightarrow> Inl e
         | Inr df \<Rightarrow>
             load_data_to_sqlite read_file sch file_paths
               (conn(resolve_table_name sch path \<mapsto> df)))
      else load_data_to_sqlite read_file sch file_paths conn)"

text \<open>
  The simple name as the specification words it: the file name in lower case, without its
  directory components and without its final extension (what follows the last dot).
\<close>

definition strip_final_extension :: "string \<Rightarrow> string" where
  "strip_final_extension fname =
     (if CHR ''.'' \<in> set fname
      then rev (tl (dropWhile (\<lambda>c. c \<noteq> CHR ''.'') (rev fname)))
      else fname)"

definition spec_simple_name :: "string \<Rightarrow> string" where
  "spec_simple_name path =
     lower (strip_final_extension (last (split_on backslash (last (split_on CHR ''/'' path)))))"

definition spec_resolve_table_name :: "schema \<Rightarrow> string \<Rightarrow> string" where
  "spec_resolve_table_name sch path =
     (case match_schema (spec_simple_name path) (case tables sch of None \<Rightarrow> [] | Some ts \<Rightarrow> ts) of
        None \<Rightarrow> spec_simple_name path
      | Some name \<Rightarrow> name)"

text \<open>The schema of the examples: the tables \<open>movie\<close> and \<open>rating\<close>, in this order.\<close>

definition example_table :: "string \<Rightarrow> table_spec" where
  "example_table name = \<lparr>table_name = name, table_definition = [], table_columns = []\<rparr>"

definition example_schema :: schema where
  "example_schema = \<lparr>tables = Some [example_table ''movie'', example_table ''rating'']\<rparr>"

section \<open>SQLSynthesizer and QueryExecutor: \<open>generate_sql\<close>, \<open>execute_and_answer\<close>\<close>

text \<open>
  A value of a result row, as \<open>sqlite3\<close> hands it to Python. Floating point and byte
  strings are not modelled: a \<open>REAL\<close> or \<open>BLOB\<close> value is kept as the text \<open>str()\<close>
  gives for it.
\<close>

datatype sql_value = SqlNull | SqlInt int | SqlText string | SqlReal string | SqlBlob string

definition digit_char :: "nat \<Rightarrow> char" where
  "digit_char d = char_of (48 + d)"

fun str_nat :: "nat \<Rightarrow> string" where
  "str_nat n = (if n < 10 then [digit_char n] else str_nat (n div 10) @ [digit_char (n mod 10)])"

declare str_nat.simps [simp del]

definition str_int :: "int \<Rightarrow> string" where
  "str_int i = (if i < 0 then CHR ''-'' # str_nat (nat (- i)) else str_nat (nat i))"

fun str_value :: "sql_value \<Rightarrow> string" where
  \<comment> \<open>\<open>str(val)\<close>\<close>
  "str_value SqlNull = ''None''"
| "str_value (SqlInt i) = str_int i"
| "str_value (SqlText s) = s"
| "str_value (SqlReal s) = s"
| "str_value (SqlBlob s) = s"

text \<open>
  A Python \<open>dict\<close> keeps its keys in the order of their first insertion; storing under a
  key that is present replaces the value where it stands. Hence an association list.
\<close>

type_synonym ('k, 'v) dict = "('k \<times> 'v) list"

fun dict_set :: "'k \<Rightarrow> 'v \<Rightarrow> ('k, 'v) dict \<Rightarrow> ('k, 'v) dict" where
  \<comment> \<open>\<open>d[k] = v\<close>\<close>
  "dict_set k v [] = [(k, v)]"
| "dict_set k v ((k', v') # d) = (if k' = k then (k, v) # d else (k', v') # dict_set k v d)"

definition dict_of :: "('k \<times> 'v) list \<Rightarrow> ('k, 'v) dict" where
  \<comment> \<open>\<open>dict(pairs)\<close>\<close>
  "dict_of pairs = foldl (\<lambda>d (k, v). dict_set k v d) [] pairs"

definition keys :: "('k, 'v) dict \<Rightarrow> 'k list" where
  "keys d = map fst d"

definition vals :: "('k, 'v) dict \<Rightarrow> 'v list" where
  \<comment> \<open>\<open>d.values()\<close>\<close>
  "vals d = map snd d"

definition dict_get :: "('k, 'v) dict \<Rightarrow> 'k \<Rightarrow> 'v option" where
  "dict_get d k = map_of d k"

datatype cursor = NoDescription | ResultSet "string list" "sql_value list list"
  \<comment> \<open>the cursor after \<open>execute\<close>: \<open>cursor.description\<close> is \<open>None\<close>, or the column names
      of \<open>cursor.description\<close> with the rows of \<open>cursor.fetchall()\<close>\<close>

record smart_data_agent =
  filter_schema :: "string \<Rightarrow> exception + string"
    \<comment> \<open>the oracle of lines 72 to 108; its answer is kept as JSON text\<close>
  invoke_sql_chain :: "string \<Rightarrow> string \<Rightarrow> exception + string"
    \<comment> \<open>\<open>chain.invoke\<close> of line 131, from the question and the filtered schema\<close>
  conn_execute :: "string \<Rightarrow> exception + cursor"
    \<comment> \<open>lines 156 to 160 on the loaded store\<close>

definition generate_sql :: "smart_data_agent \<Rightarrow> string \<Rightarrow> string \<Rightarrow> exception + string" where
  \<comment> \<open>lines 110 to 134\<close>
  "generate_sql agent user_query filtered_schema =
     (case invoke_sql_chain agent user_query filtered_schema of
        Inl e \<Rightarrow> Inl e
      | Inr sql_query \<Rightarrow> Inr (strip (replace ''```'' [] (replace ''```sql'' [] sql_query))))"

datatype answer =
    AnswerDict string string "(string, sql_value) dict list"
  | AnswerStr string
  \<comment> \<open>the dictionary with the keys \<open>"answer"\<close>, \<open>"sql"\<close> and \<open>"data"\<close>, in this order,
      or the plain string of line 188\<close>

definition apology :: string where
  "apology = ''I apologize, but I could not generate a valid SQL query to answer your question based on the provided schema/data. The question might clearly require information not present in the tables.''"

definition separator :: "string list \<Rightarrow> string" where
  \<comment> \<open>line 175; a negative count repeats zero times\<close>
  "separator headers =
     replicate (nat ((\<Sum>h\<leftarrow>headers. int (length h)) + 3 * (int (length headers) - 1))) CHR ''-''"

definition render_table :: "(string, sql_value) dict list \<Rightarrow> string" where
  \<comment> \<open>lines 167 to 180: \<open>text_table\<close>\<close>
  "render_table data_result =
     (case data_result of
        [] \<Rightarrow> []
      | first # _ \<Rightarrow>
          (let headers = keys first;
               lines = [join '' | '' headers, separator headers]
                         @ map (\<lambda>row. join '' | '' (map str_value (vals row))) data_result
           in join [nl] lines))"

definition error_answer :: "exception \<Rightarrow> answer" where
  \<comment> \<open>line 188\<close>
  "error_answer e = AnswerStr (''Error executing SQL or processing request: '' @ str e)"

definition execute_and_answer ::
  "smart_data_agent \<Rightarrow> string \<Rightarrow> string list \<Rightarrow> answer \<times> string list" where
  \<comment> \<open>lines 136 to 188. The list is the log of the statements handed to
      \<open>cursor.execute\<close>; the function returns it extended. \<open>if cursor.description:\<close> is
      false for \<open>None\<close> and for an empty description.\<close>
  "execute_and_answer agent user_query executed =
     (case filter_schema agent user_query of
        Inl e \<Rightarrow> (error_answer e, executed)
      | Inr filtered_schema \<Rightarrow>
          (case generate_sql agent user_query filtered_schema of
             Inl e \<Rightarrow> (error_answer e, executed)
           | Inr sql \<Rightarrow>
               if str_in ''NO_SQL_POSSIBLE'' sql then (AnswerDict apology sql [], executed)
               else
                 (case conn_execute agent sql of
                    Inl e \<Rightarrow> (error_answer e, executed @ [sql])
                  | Inr cur \<Rightarrow>
                      (let data_result =
                             (case cur of
                                NoDescription \<Rightarrow> []
                              | ResultSet columns results \<Rightarrow>
                                  if columns \<noteq> []
                                  then map (\<lambda>row. dict_of (zip columns row)) results
                                  else [])
                       in (AnswerDict
                             (''Executed SQL: `'' @ sql @ ''`'' @ [nl, nl] @ render_table data_result)
                             sql data_result,
                           executed @ [sql])))))"

text \<open>
  The text table as the specification words it, from the column names and the rows of the
  result set: the names joined, dashes to the length of the names plus three for each
  gap, then each row's values joined; nothing for no rows.
\<close>

definition spec_text_table :: "string list \<Rightarrow> sql_value list list \<Rightarrow> string" where
  "spec_text_table column_names rows =
     (if rows = [] then []
      else join [nl]
             ([join '' | '' column_names,
               replicate (sum_list (map length column_names) + 3 * (length column_names - 1)) CHR ''-'']
              @ map (\<lambda>row. join '' | '' (map str_value row)) rows))"

text \<open>
  An agent for the examples: the schema filter answers with an empty schema, the
  synthesizer's oracle with \<open>raw\<close>, and the store answers every statement with \<open>cur\<close>.
\<close>

definition example_agent :: "string \<Rightarrow> cursor \<Rightarrow> smart_data_agent" where
  "example_agent raw cur =
     \<lparr>filter_schema = (\<lambda>user_query. Inr ''{}''),
      invoke_sql_chain = (\<lambda>user_query filtered_schema. Inr raw),
      conn_execute = (\<lambda>statement. Inr cur)\<rparr>"

section \<open>ChatHistoryWindow: \<open>get_chat_history\<close>\<close>

datatype cell = Null | Text string
  \<comment> \<open>the value of a text column in a row the store returns\<close>

record message_row =
  row_id :: string
  row_role :: "cell option"
  row_content :: "cell option"
  \<comment> \<open>a row of \<open>select("id, role, content")\<close>, a Python dictionary; \<open>None\<close> is a key that
      is missing\<close>

record history_entry =
  role :: cell
  content :: cell

definition format_message :: "message_row \<Rightarrow> history_entry" where
  \<comment> \<open>lines 445 to 448: \<open>msg.get("role", "user")\<close>, \<open>msg.get("content", "")\<close>\<close>
  "format_message msg =
     \<lparr>role = (case row_role msg of None \<Rightarrow> Text ''user'' | Some r \<Rightarrow> r),
      content = (case row_content msg of None \<Rightarrow> Text [] | Some c \<Rightarrow> c)\<rparr>"

definition last10 :: "'a list \<Rightarrow> 'a list" where
  \<comment> \<open>\<open>xs[-10:]\<close>\<close>
  "last10 xs = drop (length xs - 10) xs"

definition get_chat_history ::
  "(string \<Rightarrow> exception + message_row list) \<Rightarrow> string \<Rightarrow> string option
     \<Rightarrow> history_entry list" where
  \<comment> \<open>lines 408 to 453. \<open>select_messages chat_id\<close> is the store's answer to the query of
      lines 423 to 428: the rows of the chat in ascending order of \<open>created_at\<close>, or an
      exception. \<open>if exclude_message_id:\<close> is false for \<open>None\<close> and for the empty string.\<close>
  "get_chat_history select_messages chat_id exclude_message_id =
     (case select_messages chat_id of
        Inl e \<Rightarrow> []
      | Inr rows \<Rightarrow>
          (let messages_data =
                 (case exclude_message_id of
                    None \<Rightarrow> rows
                  | Some i \<Rightarrow> if i \<noteq> [] then filter (\<lambda>m. row_id m \<noteq> i) rows else rows)
           in if messages_data = [] then []
              else map format_message (last10 messages_data)))"

text \<open>The window as the specification words it: drop the excluded id, keep the last ten.\<close>

definition spec_exclude :: "string option \<Rightarrow> message_row list \<Rightarrow> message_row list" where
  "spec_exclude exclude_message_id rows =
     (case exclude_message_id of
        None \<Rightarrow> rows
      | Some i \<Rightarrow> filter (\<lambda>m. row_id m \<noteq> i) rows)"

definition spec_window :: "string option \<Rightarrow> message_row list \<Rightarrow> message_row list" where
  "spec_window exclude_message_id rows =
     drop (length (spec_exclude exclude_message_id rows) - 10)
       (spec_exclude exclude_message_id rows)"

text \<open>
  The rows of the examples: message \<open>n\<close> has the id \<open>n\<close> in decimal; the odd ones are the
  user's.
\<close>

definition example_row :: "nat \<Rightarrow> message_row" where
  "example_row n =
     \<lparr>row_id = str_nat n,
      row_role = Some (Text (if odd n then ''user'' else ''assistant'')),
      row_content = Some (Text (''message '' @ str_nat n))\<rparr>"

section \<open>PipelineOrchestrator: \<open>send_message\<close>\<close>

text \<open>
  One request is run against its collaborators: the message store (Supabase), the object
  storage (S3), the structured agent, the project settings and the unstructured agents.
  What each of them answers in this request is an input of the model (\<open>services\<close>); what
  the request leaves behind is its state (\<open>world\<close>): the stored messages, the keys
  downloaded, the statements executed and the calls of the unstructured agent.

  A collaborator that fails raises an \<^typ>\<open>exception\<close>. The collaborators are taken not to
  raise \<open>HTTPException\<close> themselves, with the exception of \<open>get_project_settings\<close>, whose
  failures the code catches whatever they are; so an \<open>HTTPException\<close> that leaves
  \<open>send_message\<close> is one of its own. Rows of \<open>project_documents\<close> carry \<open>filename\<close> and
  \<open>s3_key\<close>, and the calls on the local file system (\<open>os.makedirs\<close>) succeed.
\<close>

datatype http_exception = HTTPException nat string
  \<comment> \<open>\<open>status_code\<close> and \<open>detail\<close>\<close>

record stored_message =
  msg_id :: string
  msg_chat_id :: string
  msg_clerk_id :: string
  msg_role :: string
  msg_content :: string
  msg_citations :: "string list"

record document =
  filename :: string
  s3_key :: string

datatype insert_outcome = InsertRaises exception | InsertNoData | Inserted string
  \<comment> \<open>what \<open>insert(...).execute()\<close> does: raise; return no row; store the row under a new
      id and return it\<close>

datatype agent_kind = SimpleRag | Supervisor

record rag_result =
  last_message_content :: string
  result_citations :: "string list option"
  \<comment> \<open>\<open>result["messages"][-1].content\<close> and \<open>result["citations"]\<close>, if the key is there\<close>

record services =
  insert_user :: insert_outcome
  select_documents :: "exception + document list"
  download_file :: "string \<Rightarrow> exception option"
    \<comment> \<open>by key; \<open>None\<close> is a download that succeeds\<close>
  create_smart_agent :: "string list \<Rightarrow> string \<Rightarrow> exception + smart_data_agent"
  get_project_settings :: "exception + string option"
    \<comment> \<open>\<open>project_settings["data"]["agent_type"]\<close>, \<open>None\<close> if the key is missing\<close>
  select_messages_fails :: "exception option"
  invoke_rag_agent :: "agent_kind \<Rightarrow> history_entry list \<Rightarrow> string \<Rightarrow> exception + rag_result"
    \<comment> \<open>creating the agent and invoking it, lines 579 to 598\<close>
  insert_assistant :: insert_outcome

record world =
  messages :: "stored_message list"
  downloaded :: "string list"
  executed_sql :: "string list"
  rag_calls :: "(agent_kind \<times> string) list"

record response =
  message :: string
  userMessage :: stored_message
  aiMessage :: stored_message

definition user_role :: string where
  \<comment> \<open>Modelled from the spec: \<open>MessageRole.USER.value\<close> of \<open>src/models/index.py\<close>, which
      is not among the sources; the specification names the roles \<open>user\<close> and \<open>assistant\<close>.\<close>
  "user_role = ''user''"

definition assistant_role :: string where
  \<comment> \<open>Modelled from the spec: \<open>MessageRole.ASSISTANT.value\<close>, as above.\<close>
  "assistant_role = ''assistant''"

definition supabase_insert ::
  "insert_outcome \<Rightarrow> (string \<Rightarrow> stored_message) \<Rightarrow> world
     \<Rightarrow> (exception + stored_message list) \<times> world" where
  \<comment> \<open>\<open>supabase.table("messages").insert(...).execute()\<close>: the result's \<open>data\<close>\<close>
  "supabase_insert outcome row w =
     (case outcome of
        InsertRaises e \<Rightarrow> (Inl e, w)
      | InsertNoData \<Rightarrow> (Inr [], w)
      | Inserted new_id \<Rightarrow> (Inr [row new_id], w\<lparr>messages := messages w @ [row new_id]\<rparr>))"

definition select_messages :: "services \<Rightarrow> world \<Rightarrow> string \<Rightarrow> exception + message_row list" where
  \<comment> \<open>the query of lines 423 to 428 on the stored messages, which are kept in the order of
      their creation\<close>
  "select_messages sv w chat_id =
     (case select_messages_fails sv of
        Some e \<Rightarrow> Inl e
      | None \<Rightarrow>
          Inr (map (\<lambda>m. \<lparr>row_id = msg_id m, row_role = Some (Text (msg_role m)),
                           row_content = Some (Text (msg_content m))\<rparr>)
                 (filter (\<lambda>m. msg_chat_id m = chat_id) (messages w))))"

definition path_join :: "string \<Rightarrow> string \<Rightarrow> string" where
  \<comment> \<open>\<open>os.path.join(a, b)\<close>\<close>
  "path_join a b =
     (if prefix ''/'' b then b
      else if a = [] \<or> endswith a ''/'' then a @ b
      else a @ ''/'' @ b)"

definition is_structured :: "document \<Rightarrow> bool" where
  \<comment> \<open>lines 496, 497\<close>
  "is_structured doc = endswith_any (lower (filename doc)) [''.csv'', ''.xlsx'', ''.xls'']"

definition is_schema_doc :: "document \<Rightarrow> bool" where
  \<comment> \<open>line 513\<close>
  "is_schema_doc doc = endswith (lower (filename doc)) ''.json''"

definition download_schema ::
  "services \<Rightarrow> string \<Rightarrow> document list \<Rightarrow> world \<Rightarrow> string option \<times> world" where
  \<comment> \<open>lines 509 to 526: \<open>schema_path\<close>, from the first \<open>.json\<close> document only\<close>
  "download_schema sv project_id project_docs w =
     (case find is_schema_doc project_docs of
        None \<Rightarrow> (None, w)
      | Some doc \<Rightarrow>
          (case download_file sv (s3_key doc) of
             Some e \<Rightarrow> (None, w)
           | None \<Rightarrow>
               (Some (path_join (''/tmp/schema_agent/'' @ project_id) (filename doc)),
                w\<lparr>downloaded := downloaded w @ [s3_key doc]\<rparr>)))"

fun download_structured ::
  "services \<Rightarrow> string \<Rightarrow> document list \<Rightarrow> world \<Rightarrow> (exception + string list) \<times> world" where
  \<comment> \<open>lines 534 to 542: \<open>local_csv_paths\<close>; the first download that fails ends the loop\<close>
  "download_structured sv temp_dir [] w = (Inr [], w)"
| "download_structured sv temp_dir (doc # rest) w =
     (case download_file sv (s3_key doc) of
        Some e \<Rightarrow> (Inl e, w)
      | None \<Rightarrow>
          (case download_structured sv temp_dir rest (w\<lparr>downloaded := downloaded w @ [s3_key doc]\<rparr>) of
             (Inl e, w') \<Rightarrow> (Inl e, w')
           | (Inr paths, w') \<Rightarrow> (Inr (path_join temp_dir (filename doc) # paths), w')))"

definition answer_text :: "answer \<Rightarrow> string" where
  \<comment> \<open>lines 550 to 553; the dictionary of \<open>execute_and_answer\<close> always has \<open>"answer"\<close>\<close>
  "answer_text result = (case result of AnswerDict a _ _ \<Rightarrow> a | AnswerStr s \<Rightarrow> s)"

definition run_smart_agent ::
  "services \<Rightarrow> string \<Rightarrow> string \<Rightarrow> string \<Rightarrow> document list \<Rightarrow> world
     \<Rightarrow> (exception + string) \<times> world" where
  \<comment> \<open>the body of the \<open>try\<close> of lines 529 to 553\<close>
  "run_smart_agent sv project_id message_content schema_path structured_files w =
     (case download_structured sv (''/tmp/csv_agent/'' @ project_id) structured_files w of
        (Inl e, w1) \<Rightarrow> (Inl e, w1)
      | (Inr local_csv_paths, w1) \<Rightarrow>
          (case create_smart_agent sv local_csv_paths schema_path of
             Inl e \<Rightarrow> (Inl e, w1)
           | Inr agent \<Rightarrow>
               (case execute_and_answer agent message_content (executed_sql w1) of
                  (result, executed) \<Rightarrow>
                    (Inr (answer_text result), w1\<lparr>executed_sql := executed\<rparr>))))"

definition schema_notice :: string where
  "schema_notice = ''[Notice: Structured files found but no JSON schema file was detected. Please upload a .json schema file to process the data.]''"

definition structured_error :: "exception \<Rightarrow> string" where
  \<comment> \<open>line 557\<close>
  "structured_error e = ''[Error analyzing structured data: '' @ str e @ '']''"

definition structured_branch ::
  "services \<Rightarrow> string \<Rightarrow> string \<Rightarrow> document list \<Rightarrow> world \<Rightarrow> string \<times> world" where
  \<comment> \<open>lines 492 to 559: \<open>csv_response_text\<close>\<close>
  "structured_branch sv project_id message_content project_docs w =
     (let structured_files = filter is_structured project_docs
      in if structured_files = [] then ([], w)
         else
           (case download_schema sv project_id project_docs w of
              (None, w1) \<Rightarrow> (schema_notice, w1)
            | (Some schema_path, w1) \<Rightarrow>
                (case run_smart_agent sv project_id message_content schema_path structured_files w1 of
                   (Inl e, w2) \<Rightarrow> (structured_error e, w2)
                 | (Inr text, w2) \<Rightarrow> (text, w2))))"

definition unstructured_branch ::
  "services \<Rightarrow> string \<Rightarrow> string \<Rightarrow> string \<Rightarrow> world
     \<Rightarrow> (exception + string \<times> string list) \<times> world" where
  \<comment> \<open>lines 566 to 598: \<open>rag_response_text\<close> and \<open>citations\<close>, or the exception that
      leaves the block\<close>
  "unstructured_branch sv chat_id current_message_id message_content w =
     (let agent_type =
            (case get_project_settings sv of
               Inl e \<Rightarrow> ''simple''
             | Inr None \<Rightarrow> ''simple''
             | Inr (Some t) \<Rightarrow> t);
          chat_history = get_chat_history (select_messages sv w) chat_id (Some current_message_id);
          agent = (if agent_type = ''simple'' then Some SimpleRag
                   else if agent_type = ''agentic'' then Some Supervisor
                   else None)
      in case agent of
           None \<Rightarrow> (Inr ([], []), w)
         | Some kind \<Rightarrow>
             (let w1 = w\<lparr>rag_calls := rag_calls w @ [(kind, message_content)]\<rparr>
              in case invoke_rag_agent sv kind chat_history message_content of
                   Inl e \<Rightarrow> (Inl e, w1)
                 | Inr result \<Rightarrow>
                     (Inr (last_message_content result,
                           (case result_citations result of None \<Rightarrow> [] | Some cs \<Rightarrow> cs)),
                      w1)))"

definition internal_error :: "exception \<Rightarrow> http_exception" where
  \<comment> \<open>lines 657 to 661\<close>
  "internal_error e =
     HTTPException 500 (''An internal server error occurred while creating message: '' @ str e)"

definition send_message ::
  "services \<Rightarrow> string \<Rightarrow> string \<Rightarrow> string \<Rightarrow> string \<Rightarrow> world
     \<Rightarrow> (http_exception + response) \<times> world" where
  \<comment> \<open>lines 458 to 661\<close>
  "send_message sv project_id chat_id message_content current_user_clerk_id w =
     (case supabase_insert (insert_user sv)
             (\<lambda>i. \<lparr>msg_id = i, msg_chat_id = chat_id, msg_clerk_id = current_user_clerk_id,
                    msg_role = user_role, msg_content = message_content, msg_citations = []\<rparr>) w of
        (Inl e, w1) \<Rightarrow> (Inl (internal_error e), w1)
      | (Inr [], w1) \<Rightarrow> (Inl (HTTPException 422 ''Failed to create message''), w1)
      | (Inr (user_row # _), w1) \<Rightarrow>
          (case select_documents sv of
             Inl e \<Rightarrow> (Inl (internal_error e), w1)
           | Inr project_docs \<Rightarrow>
               (case structured_branch sv project_id message_content project_docs w1 of
                  (csv_response_text, w2) \<Rightarrow>
                    (case unstructured_branch sv chat_id (msg_id user_row) message_content w2 of
                       (Inl e, w3) \<Rightarrow> (Inl (internal_error e), w3)
                     | (Inr (rag_response_text, citations), w3) \<Rightarrow>
                         (let final_response =
                                combine_responses csv_response_text
                                  (suppress_generic rag_response_text)
                          in case supabase_insert (insert_assistant sv)
                                    (\<lambda>i. \<lparr>msg_id = i, msg_chat_id = chat_id,
                                           msg_clerk_id = current_user_clerk_id,
                                           msg_role = assistant_role, msg_content = final_response,
                                           msg_citations = citations\<rparr>) w3 of
                               (Inl e, w4) \<Rightarrow> (Inl (internal_error e), w4)
                             | (Inr [], w4) \<Rightarrow>
                                 (Inl (HTTPException 422 ''Failed to create AI response''), w4)
                             | (Inr (ai_row # _), w4) \<Rightarrow>
                                 (Inr \<lparr>message = ''Message created successfully'',
                                        userMessage = user_row, aiMessage = ai_row\<rparr>,
                                  w4))))))"

text \<open>
  The request of the examples: a project with the table \<open>sales.csv\<close> and the schema
  \<open>schema.json\<close>, every collaborator answering; the store is empty before the request.
\<close>

definition example_services :: services where
  "example_services =
     \<lparr>insert_user = Inserted ''m1'',
      select_documents =
        Inr [\<lparr>filename = ''sales.csv'', s3_key = ''k1''\<rparr>,
             \<lparr>filename = ''schema.json'', s3_key = ''k2''\<rparr>],
      download_file = (\<lambda>key. None),
      create_smart_agent =
        (\<lambda>local_csv_paths schema_path.
           Inr (example_agent ''SELECT COUNT(*) AS n FROM sales'' (ResultSet [''n''] [[SqlInt 3]]))),
      get_project_settings = Inr (Some ''simple''),
      select_messages_fails = None,
      invoke_rag_agent =
        (\<lambda>kind chat_history message_content.
           Inr \<lparr>last_message_content = ''The report counts three sales.'',
                result_citations = Some [''report.pdf'']\<rparr>),
      insert_assistant = Inserted ''m2''\<rparr>"

definition empty_world :: world where
  "empty_world = \<lparr>messages = [], downloaded = [], executed_sql = [], rag_calls = []\<rparr>"

section \<open>Facts about the string functions\<close>

lemma str_in_iff: "str_in sub s \<longleftrightarrow> (\<exists>pre suf. s = pre @ sub @ suf)"
proof (induction s)
  case Nil
  then show ?case by auto
next
  case (Cons c cs)
  have "str_in sub (c # cs) \<longleftrightarrow> prefix sub (c # cs) \<or> sublist sub cs"
    using Cons.IH by (simp add: sublist_def)
  also have "\<dots> \<longleftrightarrow> sublist sub (c # cs)"
    by (simp add: sublist_Cons_right)
  finally show ?case by (simp add: sublist_def)
qed

lemma suppress_generic_cases:
  "suppress_generic t =
     (if list_ex (\<lambda>phrase. str_in phrase (lower t)) generic_phrases
      then ''No relevant chunks found'' else t)"
proof (cases "t = []")
  case True
  have "\<not> list_ex (\<lambda>phrase. str_in phrase []) generic_phrases"
    by (simp add: generic_phrases_def)
  with True show ?thesis by (simp add: suppress_generic_def lower_def)
next
  case False
  then show ?thesis by (simp add: suppress_generic_def Let_def)
qed

lemma contains_generic_iff:
  "list_ex (\<lambda>phrase. str_in phrase s) generic_phrases \<longleftrightarrow>
     (\<exists>phrase \<in> set generic_phrases. \<exists>pre suf. s = pre @ phrase @ suf)"
  by (simp add: list_ex_iff str_in_iff)

lemma named_phrases:
  "{''no relevant chunks found'', ''information not present'',
    ''you would typically need to query''} \<subseteq> set generic_phrases"
  by (simp add: generic_phrases_def)

section \<open>The merge of the two answers\<close>

text \<open>
  Claim C3. The final answer is built from the structured answer \<open>s\<close> and the unstructured
  answer \<open>u\<close>: both non-empty, the two headed sections, \<open>s\<close> first; only \<open>s\<close> non-empty,
  \<open>s\<close>; only \<open>u\<close> non-empty, \<open>u\<close>; both empty, the fixed fallback sentence.
\<close>

theorem merge_final_answer:
  "(s \<noteq> [] \<and> u \<noteq> [] \<longrightarrow>
      combine_responses s u =
        ''**Analysis from Structured Data:**'' @ [CHR 0x0A] @ s @ [CHR 0x0A, CHR 0x0A]
          @ ''**Analysis from Documents:**'' @ [CHR 0x0A] @ u)
   \<and> (s \<noteq> [] \<and> u = [] \<longrightarrow> combine_responses s u = s)
   \<and> (s = [] \<and> u \<noteq> [] \<longrightarrow> combine_responses s u = u)
   \<and> (s = [] \<and> u = [] \<longrightarrow>
        combine_responses s u =
          ''I searched available resources but found no relevant information or experienced an error.'')"
  by (simp add: combine_responses_def nl_def)

theorem merge_final_answer_witness:
  "combine_responses ''S'' ''U'' =
     ''**Analysis from Structured Data:**'' @ [CHR 0x0A] @ ''S'' @ [CHR 0x0A, CHR 0x0A]
       @ ''**Analysis from Documents:**'' @ [CHR 0x0A] @ ''U''
   \<and> combine_responses ''S'' [] = ''S''
   \<and> combine_responses [] ''U'' = ''U''
   \<and> combine_responses [] [] =
       ''I searched available resources but found no relevant information or experienced an error.''"
  using merge_final_answer [of "''S''" "''U''"] merge_final_answer [of "''S''" "[]"]
    merge_final_answer [of "[]" "''U''"] merge_final_answer [of "[]" "[]"]
  by simp

section \<open>The suppression of low-information answers\<close>

text \<open>
  Claim C5. An unstructured answer whose lower-case form contains one of the fixed phrases
  (among them "no relevant chunks found", "information not present" and "you would
  typically need to query") is replaced with "No relevant chunks found" before the merge;
  an answer that contains none of them is passed on as it is.
\<close>

theorem suppression_of_generic_answers:
  "((\<exists>phrase \<in> set generic_phrases. \<exists>pre suf. lower t = pre @ phrase @ suf) \<longrightarrow>
      suppress_generic t = ''No relevant chunks found'')
   \<and> ((\<forall>phrase \<in> set generic_phrases. \<not> (\<exists>pre suf. lower t = pre @ phrase @ suf)) \<longrightarrow>
        suppress_generic t = t)
   \<and> {''no relevant chunks found'', ''information not present'',
       ''you would typically need to query''} \<subseteq> set generic_phrases"
proof (intro conjI impI)
  assume "\<exists>phrase \<in> set generic_phrases. \<exists>pre suf. lower t = pre @ phrase @ suf"
  then have "list_ex (\<lambda>phrase. str_in phrase (lower t)) generic_phrases"
    by (simp only: contains_generic_iff)
  then show "suppress_generic t = ''No relevant chunks found''"
    by (simp only: suppress_generic_cases if_True)
next
  assume "\<forall>phrase \<in> set generic_phrases. \<not> (\<exists>pre suf. lower t = pre @ phrase @ suf)"
  then have "\<not> list_ex (\<lambda>phrase. str_in phrase (lower t)) generic_phrases"
    unfolding contains_generic_iff by blast
  then show "suppress_generic t = t"
    by (simp only: suppress_generic_cases if_False)
next
  show "{''no relevant chunks found'', ''information not present'',
         ''you would typically need to query''} \<subseteq> set generic_phrases"
    by (rule named_phrases)
qed

text \<open>
  The answer "I searched available resources but found no relevant information." is
  replaced; an answer with none of the phrases is not.
\<close>

theorem suppression_of_generic_answers_witness:
  "suppress_generic ''I searched available resources but found no relevant information.''
     = ''No relevant chunks found''
   \<and> suppress_generic ''Revenue grew by 4 percent in 2023.''
     = ''Revenue grew by 4 percent in 2023.''"
proof -
  let ?a = "''I searched available resources but found no relevant information.''"
  let ?b = "''Revenue grew by 4 percent in 2023.''"
  have "list_ex (\<lambda>phrase. str_in phrase (lower ?a)) generic_phrases"
    by code_simp
  then have ha: "\<exists>phrase \<in> set generic_phrases. \<exists>pre suf. lower ?a = pre @ phrase @ suf"
    by (simp only: contains_generic_iff)
  have "\<not> list_ex (\<lambda>phrase. str_in phrase (lower ?b)) generic_phrases"
    by code_simp
  then have hb: "\<forall>phrase \<in> set generic_phrases. \<not> (\<exists>pre suf. lower ?b = pre @ phrase @ suf)"
    unfolding contains_generic_iff by blast
  have 1: "suppress_generic ?a = ''No relevant chunks found''"
    by (rule suppression_of_generic_answers [of ?a, THEN conjunct1, THEN mp, OF ha])
  have 2: "suppress_generic ?b = ?b"
    by (rule suppression_of_generic_answers
              [of ?b, THEN conjunct2, THEN conjunct1, THEN mp, OF hb])
  from 1 2 show ?thesis by (rule conjI)
qed

section \<open>Facts about dictionaries and the text table\<close>

lemma dict_set_fresh: "k \<notin> fst ` set d \<Longrightarrow> dict_set k v d = d @ [(k, v)]"
  by (induction d) auto

lemma foldl_dict_set_distinct:
  "distinct (map fst ps) \<Longrightarrow> fst ` set ps \<inter> fst ` set acc = {} \<Longrightarrow>
   foldl (\<lambda>d (k, v). dict_set k v d) acc ps = acc @ ps"
proof (induction ps arbitrary: acc)
  case Nil
  then show ?case by simp
next
  case (Cons p ps)
  obtain k v where p: "p = (k, v)" by (cases p)
  from Cons.prems p have fresh: "k \<notin> fst ` set acc" by auto
  from Cons.prems p have "fst ` set ps \<inter> fst ` set (acc @ [(k, v)]) = {}"
    by (auto simp: image_iff)
  with Cons.IH [of "acc @ [(k, v)]"] Cons.prems
  have "foldl (\<lambda>d (k, v). dict_set k v d) (acc @ [(k, v)]) ps = (acc @ [(k, v)]) @ ps"
    by simp
  with fresh p show ?case by (simp add: dict_set_fresh)
qed

lemma dict_of_distinct: "distinct (map fst ps) \<Longrightarrow> dict_of ps = ps"
  using foldl_dict_set_distinct [of ps "[]"] by (simp add: dict_of_def)

lemma dict_of_zip_distinct:
  "distinct columns \<Longrightarrow> length row = length columns \<Longrightarrow> dict_of (zip columns row) = zip columns row"
  by (rule dict_of_distinct) simp

lemma sum_list_int_length: "(\<Sum>h\<leftarrow>hs. int (length h)) = int (sum_list (map length hs))"
  by (induction hs) auto

lemma separator_nat:
  "separator hs = replicate (sum_list (map length hs) + 3 * (length hs - 1)) CHR ''-''"
proof (cases hs)
  case Nil
  then show ?thesis by (simp add: separator_def)
next
  case (Cons h t)
  then show ?thesis
    by (simp add: separator_def sum_list_int_length nat_add_distrib nat_mult_distrib)
qed


lemma render_table_distinct:
  assumes "distinct column_names" and "\<forall>row \<in> set rows. length row = length column_names"
  shows "render_table (map (\<lambda>row. dict_of (zip column_names row)) rows)
           = spec_text_table column_names rows"
proof -
  have eq: "map (\<lambda>row. dict_of (zip column_names row)) rows = map (zip column_names) rows"
    using assms by (intro map_cong refl dict_of_zip_distinct) auto
  show ?thesis
  proof (cases rows)
    case Nil
    then show ?thesis by (simp add: render_table_def spec_text_table_def)
  next
    case (Cons r rs)
    with assms(2) have len: "length r = length column_names" by simp
    have body: "map (\<lambda>row. join '' | '' (map str_value (vals row))) (map (zip column_names) rows)
                  = map (\<lambda>row. join '' | '' (map str_value row)) rows"
    proof -
      have "\<forall>row \<in> set rows. vals (zip column_names row) = row"
        using assms(2) by (simp add: vals_def)
      then show ?thesis by auto
    qed
    have head: "keys (zip column_names r) = column_names"
      using len by (simp add: keys_def)
    have r1: "render_table (map (zip column_names) rows)
            = join [nl] ([join '' | '' column_names, separator column_names]
                @ map (\<lambda>row. join '' | '' (map str_value (vals row))) (map (zip column_names) rows))"
      using Cons head by (simp add: render_table_def Let_def)
    have "rows \<noteq> []" using Cons by simp
    then have r2: "spec_text_table column_names rows
            = join [nl] ([join '' | '' column_names, separator column_names]
                @ map (\<lambda>row. join '' | '' (map str_value row)) rows)"
      by (simp add: spec_text_table_def separator_nat)
    show ?thesis by (simp only: eq r1 r2 body)
  qed
qed

section \<open>The sentinel\<close>

text \<open>
  Claim C1, as amended. When the synthesizer's cleaned output contains NO_SQL_POSSIBLE
  anywhere, \<open>execute_and_answer\<close> returns the fixed apology as the answer, the cleaned
  output itself as \<open>"sql"\<close> and no data, and hands no statement to the store: the log of
  executed statements is returned as it was.
\<close>

theorem sentinel_short_circuit:
  assumes "filter_schema agent user_query = Inr filtered_schema"
    and "generate_sql agent user_query filtered_schema = Inr cleaned"
    and "\<exists>pre suf. cleaned = pre @ ''NO_SQL_POSSIBLE'' @ suf"
  shows "execute_and_answer agent user_query executed =
           (AnswerDict
              ''I apologize, but I could not generate a valid SQL query to answer your question based on the provided schema/data. The question might clearly require information not present in the tables.''
              cleaned [],
            executed)"
proof -
  have "str_in ''NO_SQL_POSSIBLE'' cleaned"
    using assms(3) by (simp only: str_in_iff)
  then show ?thesis
    using assms(1,2) by (simp add: execute_and_answer_def apology_def)
qed


theorem sentinel_short_circuit_witness:
  "execute_and_answer
     (example_agent (''```'' @ [CHR 0x0A] @ ''NO_SQL_POSSIBLE.'' @ [CHR 0x0A] @ ''```'') NoDescription)
     ''What is the average price?'' [''SELECT 1'']
   = (AnswerDict
        ''I apologize, but I could not generate a valid SQL query to answer your question based on the provided schema/data. The question might clearly require information not present in the tables.''
        ''NO_SQL_POSSIBLE.'' [],
      [''SELECT 1''])"
proof -
  let ?agent = "example_agent (''```'' @ [CHR 0x0A] @ ''NO_SQL_POSSIBLE.'' @ [CHR 0x0A] @ ''```'') NoDescription"
  have h1: "filter_schema ?agent ''What is the average price?'' = Inr ''{}''"
    by (simp add: example_agent_def)
  have h2: "generate_sql ?agent ''What is the average price?'' ''{}'' = Inr ''NO_SQL_POSSIBLE.''"
    by code_simp
  have "str_in ''NO_SQL_POSSIBLE'' ''NO_SQL_POSSIBLE.''"
    by code_simp
  then have h3: "\<exists>pre suf. ''NO_SQL_POSSIBLE.'' = pre @ ''NO_SQL_POSSIBLE'' @ suf"
    by (simp only: str_in_iff)
  show ?thesis
    by (rule sentinel_short_circuit [OF h1 h2 h3])
qed

text \<open>
  The claim as stated has the sentinel itself in \<open>"sql"\<close>. The test is for a substring, so
  the cleaned output may be longer than the sentinel, and it is the cleaned output that is
  returned.
\<close>

theorem sentinel_sql_field_counterexample:
  "generate_sql (example_agent ''NO_SQL_POSSIBLE: the schema has no price column'' NoDescription)
       ''What is the average price?'' ''{}''
     = Inr ''NO_SQL_POSSIBLE: the schema has no price column''
   \<and> execute_and_answer
         (example_agent ''NO_SQL_POSSIBLE: the schema has no price column'' NoDescription)
         ''What is the average price?'' []
       = (AnswerDict apology ''NO_SQL_POSSIBLE: the schema has no price column'' [], [])
   \<and> execute_and_answer
         (example_agent ''NO_SQL_POSSIBLE: the schema has no price column'' NoDescription)
         ''What is the average price?'' []
       \<noteq> (AnswerDict apology ''NO_SQL_POSSIBLE'' [], [])"
  by code_simp

section \<open>The text table\<close>

text \<open>
  Claim C4, as amended. For a statement that executes and whose result set has pairwise
  distinct column names, the answer is "Executed SQL: `statement`", an empty line, and
  the text table: the column names joined with " | ", a row of dashes of the length of the
  names plus three for each gap, and each row's values joined with " | "; with no rows the
  table is empty. A result set has at least one column, and each of its rows has one value
  for each column.
\<close>

theorem rendered_table_distinct_columns:
  assumes "filter_schema agent user_query = Inr filtered_schema"
    and "generate_sql agent user_query filtered_schema = Inr statement"
    and "\<not> (\<exists>pre suf. statement = pre @ ''NO_SQL_POSSIBLE'' @ suf)"
    and "conn_execute agent statement = Inr (ResultSet column_names rows)"
    and "distinct column_names"
    and "\<forall>row \<in> set rows. length row = length column_names"
    and "column_names \<noteq> []"
  shows "execute_and_answer agent user_query executed =
           (AnswerDict
              (''Executed SQL: `'' @ statement @ ''`'' @ [CHR 0x0A, CHR 0x0A]
                 @ spec_text_table column_names rows)
              statement (map (zip column_names) rows),
            executed @ [statement])"
proof -
  have no: "\<not> str_in ''NO_SQL_POSSIBLE'' statement"
    using assms(3) by (simp only: str_in_iff not_False_eq_True)
  have eq: "map (\<lambda>row. dict_of (zip column_names row)) rows = map (zip column_names) rows"
    using assms(5,6) by (intro map_cong refl dict_of_zip_distinct) auto
  have table: "render_table (map (zip column_names) rows) = spec_text_table column_names rows"
    using render_table_distinct [OF assms(5,6)] by (simp only: eq)
  show ?thesis
    using assms(1,2,4,7) no by (simp add: execute_and_answer_def nl_def Let_def eq table)
qed

text \<open>
  The columns a, b with the rows (1, 2) and (3, 4): the header is "a | b", the separator
  has five dashes, the rows are "1 | 2" and "3 | 4".
\<close>

theorem rendered_table_distinct_columns_witness:
  "execute_and_answer
     (example_agent ''SELECT a, b FROM t''
        (ResultSet [''a'', ''b''] [[SqlInt 1, SqlInt 2], [SqlInt 3, SqlInt 4]]))
     ''List a and b'' []
   = (AnswerDict
        (''Executed SQL: `SELECT a, b FROM t`'' @ [CHR 0x0A, CHR 0x0A]
           @ ''a | b'' @ [CHR 0x0A] @ ''-----'' @ [CHR 0x0A]
           @ ''1 | 2'' @ [CHR 0x0A] @ ''3 | 4'')
        ''SELECT a, b FROM t''
        [[(''a'', SqlInt 1), (''b'', SqlInt 2)], [(''a'', SqlInt 3), (''b'', SqlInt 4)]],
      [''SELECT a, b FROM t''])"
proof -
  let ?cur = "ResultSet [''a'', ''b''] [[SqlInt 1, SqlInt 2], [SqlInt 3, SqlInt 4]]"
  let ?agent = "example_agent ''SELECT a, b FROM t'' ?cur"
  have h1: "filter_schema ?agent ''List a and b'' = Inr ''{}''"
    by (simp add: example_agent_def)
  have h2: "generate_sql ?agent ''List a and b'' ''{}'' = Inr ''SELECT a, b FROM t''"
    by code_simp
  have "\<not> str_in ''NO_SQL_POSSIBLE'' ''SELECT a, b FROM t''"
    by code_simp
  then have h3: "\<not> (\<exists>pre suf. ''SELECT a, b FROM t'' = pre @ ''NO_SQL_POSSIBLE'' @ suf)"
    by (simp only: str_in_iff not_False_eq_True)
  have h4: "conn_execute ?agent ''SELECT a, b FROM t'' = Inr ?cur"
    by (simp add: example_agent_def)
  have h5: "distinct [''a'', ''b'']" by simp
  have h6: "\<forall>row \<in> set [[SqlInt 1, SqlInt 2], [SqlInt 3, SqlInt 4]]. length row = length [''a'', ''b'']"
    by simp
  have h7: "[''a'', ''b''] \<noteq> []" by simp
  have t: "spec_text_table [''a'', ''b''] [[SqlInt 1, SqlInt 2], [SqlInt 3, SqlInt 4]]
            = ''a | b'' @ [CHR 0x0A] @ ''-----'' @ [CHR 0x0A] @ ''1 | 2'' @ [CHR 0x0A] @ ''3 | 4''"
    by code_simp
  show ?thesis
    using rendered_table_distinct_columns [OF h1 h2 h3 h4 h5 h6 h7, of "[]"]
    by (simp add: t)
qed

text \<open>
  With a column name that occurs twice the table has one column for it: the claim as
  stated fails for the result set of \<open>SELECT 1 AS a, 2 AS a\<close>.
\<close>

theorem rendered_table_duplicate_columns_counterexample:
  "answer_text (fst (execute_and_answer
       (example_agent ''SELECT 1 AS a, 2 AS a'' (ResultSet [''a'', ''a''] [[SqlInt 1, SqlInt 2]]))
       ''Give me one and two'' []))
     = ''Executed SQL: `SELECT 1 AS a, 2 AS a`'' @ [CHR 0x0A, CHR 0x0A]
         @ ''a'' @ [CHR 0x0A] @ ''-'' @ [CHR 0x0A] @ ''2''
   \<and> answer_text (fst (execute_and_answer
       (example_agent ''SELECT 1 AS a, 2 AS a'' (ResultSet [''a'', ''a''] [[SqlInt 1, SqlInt 2]]))
       ''Give me one and two'' []))
     \<noteq> ''Executed SQL: `SELECT 1 AS a, 2 AS a`'' @ [CHR 0x0A, CHR 0x0A]
         @ ''a | a'' @ [CHR 0x0A] @ ''-----'' @ [CHR 0x0A] @ ''1 | 2''
   \<and> spec_text_table [''a'', ''a''] [[SqlInt 1, SqlInt 2]]
     = ''a | a'' @ [CHR 0x0A] @ ''-----'' @ [CHR 0x0A] @ ''1 | 2''"
  by code_simp

section \<open>Repeated column names\<close>

lemma keys_dict_set:
  "keys (dict_set k v d) = (if k \<in> set (keys d) then keys d else keys d @ [k])"
  by (induction d) (force simp: keys_def)+

lemma map_of_dict_set: "map_of (dict_set k v d) = (map_of d)(k \<mapsto> v)"
  by (induction d) (auto simp: fun_upd_twist)

lemma set_keys_foldl:
  "set (keys (foldl (\<lambda>d (k, v). dict_set k v d) acc ps)) = set (keys acc) \<union> fst ` set ps"
  by (induction ps arbitrary: acc) (auto simp: keys_dict_set split: if_splits)

lemma distinct_keys_foldl:
  "distinct (keys acc) \<Longrightarrow> distinct (keys (foldl (\<lambda>d (k, v). dict_set k v d) acc ps))"
  by (induction ps arbitrary: acc) (auto simp: keys_dict_set)

lemma map_of_foldl:
  "map_of (foldl (\<lambda>d (k, v). dict_set k v d) acc ps) = map_of acc ++ map_of (rev ps)"
proof (induction ps arbitrary: acc)
  case Nil
  then show ?case by simp
next
  case (Cons p ps)
  obtain k v where p: "p = (k, v)" by (cases p)
  have "map_of (foldl (\<lambda>d (k, v). dict_set k v d) acc (p # ps))
          = map_of (foldl (\<lambda>d (k, v). dict_set k v d) (dict_set k v acc) ps)"
    by (simp add: p)
  also have "\<dots> = map_of (dict_set k v acc) ++ map_of (rev ps)"
    by (rule Cons.IH)
  also have "\<dots> = (map_of acc)(k \<mapsto> v) ++ map_of (rev ps)"
    by (simp only: map_of_dict_set)
  also have "\<dots> = map_of acc ++ map_of (rev (p # ps))"
    by (rule ext) (simp add: p map_add_def split: option.splits)
  finally show ?case .
qed

lemma map_of_rev_zip_last:
  "length xs = length ys \<Longrightarrow> i < length xs \<Longrightarrow>
   \<forall>j<length xs. i < j \<longrightarrow> xs ! j \<noteq> xs ! i \<Longrightarrow>
   map_of (rev (zip xs ys)) (xs ! i) = Some (ys ! i)"
proof (induction xs ys arbitrary: i rule: list_induct2)
  case Nil
  then show ?case by simp
next
  case (Cons x xs y ys)
  show ?case
  proof (cases i)
    case 0
    have "x \<notin> set xs"
    proof
      assume "x \<in> set xs"
      then obtain j where "j < length xs" "xs ! j = x" by (auto simp: in_set_conv_nth)
      with Cons.prems(2) 0 show False by (auto dest: spec [of _ "Suc j"])
    qed
    then have "map_of (rev (zip xs ys)) x = None"
      by (auto simp: map_of_eq_None_iff dest: set_zip_leftD)
    with 0 show ?thesis by (simp add: map_add_def)
  next
    case (Suc i')
    with Cons.prems have i': "i' < length xs" by simp
    have "\<forall>j<length xs. i' < j \<longrightarrow> xs ! j \<noteq> xs ! i'"
    proof (intro allI impI)
      fix j assume "j < length xs" "i' < j"
      with Cons.prems(2) Suc show "xs ! j \<noteq> xs ! i'"
        by (auto dest: spec [of _ "Suc j"])
    qed
    with Cons.IH i' have "map_of (rev (zip xs ys)) (xs ! i') = Some (ys ! i')" by simp
    with Suc show ?thesis by (simp add: map_add_def)
  qed
qed

lemma dict_of_zip_collapse:
  assumes "length row = length column_names"
  shows "distinct (keys (dict_of (zip column_names row)))
    \<and> set (keys (dict_of (zip column_names row))) = set column_names
    \<and> length (vals (dict_of (zip column_names row))) = card (set column_names)
    \<and> (\<forall>i<length column_names.
          (\<forall>j<length column_names. i < j \<longrightarrow> column_names ! j \<noteq> column_names ! i) \<longrightarrow>
          dict_get (dict_of (zip column_names row)) (column_names ! i) = Some (row ! i))
    \<and> (\<not> distinct column_names \<longrightarrow>
          length (keys (dict_of (zip column_names row))) < length column_names)
    \<and> (\<exists>body. render_table (map (\<lambda>r. dict_of (zip column_names r)) (row # rest))
          = join '' | '' (keys (dict_of (zip column_names row))) @ [CHR 0x0A] @ body)"
proof -
  let ?d = "dict_of (zip column_names row)"
  have d: "distinct (keys ?d)"
    unfolding dict_of_def by (rule distinct_keys_foldl) (simp add: keys_def)
  have "set (keys ?d)
          = set (keys ([] :: (string, sql_value) dict)) \<union> fst ` set (zip column_names row)"
    unfolding dict_of_def by (rule set_keys_foldl)
  also have "\<dots> = set (map fst (zip column_names row))"
    by (simp add: keys_def)
  also have "\<dots> = set column_names"
    using assms by simp
  finally have s: "set (keys ?d) = set column_names" .
  have n: "length (keys ?d) = card (set column_names)"
    using d s distinct_card by fastforce
  have l: "length (vals ?d) = card (set column_names)"
    using n by (simp add: vals_def keys_def)
  have m: "map_of ?d = map_of (rev (zip column_names row))"
    by (simp add: dict_of_def map_of_foldl)
  have v: "\<forall>i<length column_names.
          (\<forall>j<length column_names. i < j \<longrightarrow> column_names ! j \<noteq> column_names ! i) \<longrightarrow>
          dict_get ?d (column_names ! i) = Some (row ! i)"
    using assms by (simp add: dict_get_def m map_of_rev_zip_last)
  have c: "\<not> distinct column_names \<longrightarrow> length (keys ?d) < length column_names"
    using n card_length [of column_names] card_distinct [of column_names] by fastforce
  have "render_table (map (\<lambda>r. dict_of (zip column_names r)) (row # rest))
          = join '' | '' (keys ?d) @ [CHR 0x0A]
              @ join [nl] (separator (keys ?d)
                  # map (\<lambda>r. join '' | '' (map str_value (vals r)))
                      (map (\<lambda>r. dict_of (zip column_names r)) (row # rest)))"
    by (simp add: render_table_def Let_def nl_def)
  then have r: "\<exists>body. render_table (map (\<lambda>r. dict_of (zip column_names r)) (row # rest))
          = join '' | '' (keys ?d) @ [CHR 0x0A] @ body"
    by blast
  from d s l v c r show ?thesis by blast
qed

text \<open>
  Claim C10. When a statement executes, each returned row is the dictionary built from the
  column names and the row's values. A name that occurs more than once gives one key,
  bound to the value of its last occurrence; the keys of a row are the distinct column
  names, and the header of the table joins these keys. With a repeated name there are
  fewer keys, and fewer values in each row, than the result set has columns. A result set
  has at least one column, and each of its rows has one value for each column.
\<close>

theorem duplicate_columns_collapse:
  assumes "filter_schema agent user_query = Inr filtered_schema"
    and "generate_sql agent user_query filtered_schema = Inr statement"
    and "\<not> (\<exists>pre suf. statement = pre @ ''NO_SQL_POSSIBLE'' @ suf)"
    and "conn_execute agent statement = Inr (ResultSet column_names rows)"
    and "\<forall>row \<in> set rows. length row = length column_names"
    and "column_names \<noteq> []"
  shows "\<exists>text data_result.
           execute_and_answer agent user_query executed
             = (AnswerDict text statement data_result, executed @ [statement])
         \<and> length data_result = length rows
         \<and> (\<forall>n<length rows.
               distinct (keys (data_result ! n))
             \<and> set (keys (data_result ! n)) = set column_names
             \<and> length (vals (data_result ! n)) = card (set column_names)
             \<and> (\<forall>i<length column_names.
                   (\<forall>j<length column_names. i < j \<longrightarrow> column_names ! j \<noteq> column_names ! i) \<longrightarrow>
                   dict_get (data_result ! n) (column_names ! i) = Some (rows ! n ! i)))
         \<and> (rows \<noteq> [] \<longrightarrow>
               (\<exists>body. text = ''Executed SQL: `'' @ statement @ ''`'' @ [CHR 0x0A, CHR 0x0A]
                             @ join '' | '' (keys (data_result ! 0)) @ [CHR 0x0A] @ body))
         \<and> (\<not> distinct column_names \<longrightarrow> card (set column_names) < length column_names)"
proof -
  let ?data = "map (\<lambda>row. dict_of (zip column_names row)) rows"
  let ?text = "''Executed SQL: `'' @ statement @ ''`'' @ [CHR 0x0A, CHR 0x0A] @ render_table ?data"
  have no: "\<not> str_in ''NO_SQL_POSSIBLE'' statement"
    using assms(3) by (simp only: str_in_iff not_False_eq_True)
  have run: "execute_and_answer agent user_query executed
               = (AnswerDict ?text statement ?data, executed @ [statement])"
    using assms(1,2,4,6) no by (simp add: execute_and_answer_def nl_def Let_def)
  have rows: "\<forall>n<length rows.
               distinct (keys (?data ! n))
             \<and> set (keys (?data ! n)) = set column_names
             \<and> length (vals (?data ! n)) = card (set column_names)
             \<and> (\<forall>i<length column_names.
                   (\<forall>j<length column_names. i < j \<longrightarrow> column_names ! j \<noteq> column_names ! i) \<longrightarrow>
                   dict_get (?data ! n) (column_names ! i) = Some (rows ! n ! i))"
  proof (intro allI impI)
    fix n assume n: "n < length rows"
    with assms(5) have len: "length (rows ! n) = length column_names" by simp
    from n have at: "?data ! n = dict_of (zip column_names (rows ! n))" by simp
    show "distinct (keys (?data ! n))
             \<and> set (keys (?data ! n)) = set column_names
             \<and> length (vals (?data ! n)) = card (set column_names)
             \<and> (\<forall>i<length column_names.
                   (\<forall>j<length column_names. i < j \<longrightarrow> column_names ! j \<noteq> column_names ! i) \<longrightarrow>
                   dict_get (?data ! n) (column_names ! i) = Some (rows ! n ! i))"
      unfolding at using dict_of_zip_collapse [OF len, of "[]"] by blast
  qed
  have header: "rows \<noteq> [] \<longrightarrow>
               (\<exists>body. ?text = ''Executed SQL: `'' @ statement @ ''`'' @ [CHR 0x0A, CHR 0x0A]
                             @ join '' | '' (keys (?data ! 0)) @ [CHR 0x0A] @ body)"
  proof
    assume "rows \<noteq> []"
    then obtain r rs where rows_eq: "rows = r # rs" by (cases rows) auto
    with assms(5) have len: "length r = length column_names" by simp
    from dict_of_zip_collapse [OF len, of rs] obtain body where
      "render_table (map (\<lambda>r. dict_of (zip column_names r)) (r # rs))
         = join '' | '' (keys (dict_of (zip column_names r))) @ [CHR 0x0A] @ body"
      by blast
    then have "render_table ?data = join '' | '' (keys (?data ! 0)) @ [CHR 0x0A] @ body"
      by (simp add: rows_eq)
    then show "\<exists>body. ?text = ''Executed SQL: `'' @ statement @ ''`'' @ [CHR 0x0A, CHR 0x0A]
                             @ join '' | '' (keys (?data ! 0)) @ [CHR 0x0A] @ body"
      by simp
  qed
  have fewer: "\<not> distinct column_names \<longrightarrow> card (set column_names) < length column_names"
    using card_length [of column_names] card_distinct [of column_names] by fastforce
  have len: "length ?data = length rows" by simp
  from run len rows header fewer show ?thesis by blast
qed

text \<open>
  \<open>SELECT 1 AS a, 2 AS a\<close>: one column \<open>a\<close> with the value 2 is shown and returned.
\<close>

theorem duplicate_columns_collapse_witness:
  "execute_and_answer
     (example_agent ''SELECT 1 AS a, 2 AS a'' (ResultSet [''a'', ''a''] [[SqlInt 1, SqlInt 2]]))
     ''Give me one and two'' []
   = (AnswerDict
        (''Executed SQL: `SELECT 1 AS a, 2 AS a`'' @ [CHR 0x0A, CHR 0x0A]
           @ ''a'' @ [CHR 0x0A] @ ''-'' @ [CHR 0x0A] @ ''2'')
        ''SELECT 1 AS a, 2 AS a'' [[(''a'', SqlInt 2)]],
      [''SELECT 1 AS a, 2 AS a''])
   \<and> card (set [''a'', ''a'']) < length [''a'', ''a'']"
proof -
  let ?cur = "ResultSet [''a'', ''a''] [[SqlInt 1, SqlInt 2]]"
  let ?agent = "example_agent ''SELECT 1 AS a, 2 AS a'' ?cur"
  have h1: "filter_schema ?agent ''Give me one and two'' = Inr ''{}''"
    by (simp add: example_agent_def)
  have h2: "generate_sql ?agent ''Give me one and two'' ''{}'' = Inr ''SELECT 1 AS a, 2 AS a''"
    by code_simp
  have "\<not> str_in ''NO_SQL_POSSIBLE'' ''SELECT 1 AS a, 2 AS a''"
    by code_simp
  then have h3: "\<not> (\<exists>pre suf. ''SELECT 1 AS a, 2 AS a'' = pre @ ''NO_SQL_POSSIBLE'' @ suf)"
    by (simp only: str_in_iff not_False_eq_True)
  have h4: "conn_execute ?agent ''SELECT 1 AS a, 2 AS a'' = Inr ?cur"
    by (simp add: example_agent_def)
  have h5: "\<forall>row \<in> set [[SqlInt 1, SqlInt 2]]. length row = length [''a'', ''a'']"
    by simp
  have h6: "[''a'', ''a''] \<noteq> []" by simp
  have nd: "\<not> distinct [''a'', ''a'']" by simp
  from duplicate_columns_collapse [OF h1 h2 h3 h4 h5 h6, of "[]"] nd
  have fewer: "card (set [''a'', ''a'']) < length [''a'', ''a'']"
    by blast
  have run: "execute_and_answer ?agent ''Give me one and two'' []
   = (AnswerDict
        (''Executed SQL: `SELECT 1 AS a, 2 AS a`'' @ [CHR 0x0A, CHR 0x0A]
           @ ''a'' @ [CHR 0x0A] @ ''-'' @ [CHR 0x0A] @ ''2'')
        ''SELECT 1 AS a, 2 AS a'' [[(''a'', SqlInt 2)]],
      [''SELECT 1 AS a, 2 AS a''])"
    by code_simp
  from run fewer show ?thesis by (rule conjI)
qed

section \<open>Table names\<close>

text \<open>
  A file that is loaded is stored under \<open>resolve_table_name\<close>. For a file name with a
  single dot the code and the wording of the specification agree, on the simple name and,
  when no table of the schema has an empty name, on the table.
\<close>

lemma load_data_to_sqlite_single:
  "load_data_to_sqlite read_file sch [path] conn =
     (if is_loaded path
      then (case read_file path of
              Inl e \<Rightarrow> Inl e
            | Inr df \<Rightarrow> Inr (conn(resolve_table_name sch path \<mapsto> df)))
      else Inr conn)"
  by (simp split: sum.splits)

lemma split_on_not_Nil: "split_on sep s \<noteq> []"
  by (induction s) (auto split: list.splits)

lemma hd_split_on: "hd (split_on sep s) = takeWhile (\<lambda>c. c \<noteq> sep) s"
  by (induction s) (auto split: list.splits simp: split_on_not_Nil)

lemma lower_eq_Nil: "lower s = [] \<longleftrightarrow> s = []"
  by (simp add: lower_def)

lemma strip_final_extension_single_dot:
  "CHR ''.'' \<notin> set ext \<Longrightarrow> strip_final_extension (stem @ CHR ''.'' # ext) = stem"
proof -
  assume "CHR ''.'' \<notin> set ext"
  then have "dropWhile (\<lambda>c. c \<noteq> CHR ''.'') (rev ext @ CHR ''.'' # rev stem) = CHR ''.'' # rev stem"
    by (subst dropWhile_append2) auto
  then show ?thesis by (simp add: strip_final_extension_def)
qed

lemma simple_filename_single_dot:
  assumes "last (split_on backslash (last (split_on CHR ''/'' path))) = stem @ CHR ''.'' # ext"
    and "CHR ''.'' \<notin> set stem" and "CHR ''.'' \<notin> set ext"
  shows "simple_filename path = lower stem" and "spec_simple_name path = lower stem"
proof -
  from assms(2) have "takeWhile (\<lambda>c. c \<noteq> CHR ''.'') (stem @ CHR ''.'' # ext) = stem"
    by (subst takeWhile_append2) auto
  with assms(1) show "simple_filename path = lower stem"
    by (simp add: simple_filename_def hd_split_on)
  from assms(1,3) show "spec_simple_name path = lower stem"
    by (simp add: spec_simple_name_def strip_final_extension_single_dot)
qed

lemma match_schema_nonempty:
  "\<forall>t \<in> set ts. table_name t \<noteq> [] \<Longrightarrow> match_schema simple ts = Some name \<Longrightarrow> name \<noteq> []"
  by (induction ts) (auto simp: Let_def lower_eq_Nil split: if_splits)

lemma resolve_table_name_single_dot:
  assumes "last (split_on backslash (last (split_on CHR ''/'' path))) = stem @ CHR ''.'' # ext"
    and "CHR ''.'' \<notin> set stem" and "CHR ''.'' \<notin> set ext"
    and "\<forall>ts. tables sch = Some ts \<longrightarrow> (\<forall>t \<in> set ts. table_name t \<noteq> [])"
  shows "resolve_table_name sch path = spec_resolve_table_name sch path"
proof (cases "tables sch")
  case None
  then show ?thesis
    using simple_filename_single_dot [OF assms(1,2,3)]
    by (simp add: resolve_table_name_def spec_resolve_table_name_def)
next
  case (Some ts)
  with assms(4) have ne: "\<forall>t \<in> set ts. table_name t \<noteq> []" by simp
  show ?thesis
  proof (cases "match_schema (lower stem) ts")
    case None
    with Some show ?thesis
      using simple_filename_single_dot [OF assms(1,2,3)]
      by (simp add: resolve_table_name_def spec_resolve_table_name_def)
  next
    case (Some name)
    with match_schema_nonempty [OF ne] have "name \<noteq> []" by simp
    with Some \<open>tables sch = Some ts\<close> show ?thesis
      using simple_filename_single_dot [OF assms(1,2,3)]
      by (simp add: resolve_table_name_def spec_resolve_table_name_def)
  qed
qed

text \<open>
  Claim C2. The table name of a loaded file is the lower-case name of the first table of
  the schema that contains the file's simple name or is contained in it, and the simple
  name if there is none; the simple name is the file name in lower case without its
  directories and without its final extension. The code takes the simple name up to the
  first dot of the file name (line 44), which is the same for a file name with one dot
  only. Evaluated here: the two examples of the specification, and the file
  \<open>top.rating.csv\<close>, whose simple name is \<open>top\<close> in the code and \<open>top.rating\<close> by the
  claim, so that the table is \<open>top\<close> where the claim gives \<open>rating\<close>.
\<close>

theorem first_dot_ends_simple_name:
  "is_loaded ''/tmp/csv_agent/p1/top.rating.csv''
   \<and> simple_filename ''/tmp/csv_agent/p1/top.rating.csv'' = ''top''
   \<and> spec_simple_name ''/tmp/csv_agent/p1/top.rating.csv'' = ''top.rating''
   \<and> resolve_table_name example_schema ''/tmp/csv_agent/p1/top.rating.csv'' = ''top''
   \<and> spec_resolve_table_name example_schema ''/tmp/csv_agent/p1/top.rating.csv'' = ''rating''
   \<and> resolve_table_name example_schema ''final_movies.csv'' = ''movie''
   \<and> resolve_table_name example_schema ''unknown_data.csv'' = ''unknown_data''"
  by code_simp

section \<open>The history window\<close>

lemma spec_exclude_eq:
  assumes "\<forall>m \<in> set rows. row_id m \<noteq> []"
  shows "(case exclude_message_id of
            None \<Rightarrow> rows
          | Some i \<Rightarrow> if i \<noteq> [] then filter (\<lambda>m. row_id m \<noteq> i) rows else rows)
         = spec_exclude exclude_message_id rows"
proof (cases exclude_message_id)
  case None
  then show ?thesis by (simp add: spec_exclude_def)
next
  case (Some i)
  have "i = [] \<Longrightarrow> filter (\<lambda>m. row_id m \<noteq> i) rows = rows"
    using assms by (simp add: filter_id_conv)
  with Some show ?thesis by (auto simp: spec_exclude_def)
qed

text \<open>
  Claim C6. For the rows of a chat in ascending order of creation and an optional id to
  exclude, \<open>get_chat_history\<close> returns the last ten of the rows without the excluded id,
  all of them if there are ten or fewer, in the order they came, each as its role and
  content, with the role "user" and the empty content for a key that is missing. Stored
  rows have a non-empty id.
\<close>

theorem history_window:
  assumes "select chat_id = Inr rows"
    and "\<forall>m \<in> set rows. row_id m \<noteq> []"
  shows "get_chat_history select chat_id exclude_message_id
           = map format_message (spec_window exclude_message_id rows)
    \<and> length (get_chat_history select chat_id exclude_message_id)
           = min 10 (length (spec_exclude exclude_message_id rows))
    \<and> suffix (spec_window exclude_message_id rows) (spec_exclude exclude_message_id rows)
    \<and> subseq (spec_exclude exclude_message_id rows) rows
    \<and> (\<forall>i. exclude_message_id = Some i \<longrightarrow>
          (\<forall>m \<in> set (spec_window exclude_message_id rows). row_id m \<noteq> i))
    \<and> (length (spec_exclude exclude_message_id rows) \<le> 10 \<longrightarrow>
          spec_window exclude_message_id rows = spec_exclude exclude_message_id rows)
    \<and> (\<forall>m. role (format_message m) = (case row_role m of None \<Rightarrow> Text ''user'' | Some r \<Rightarrow> r)
           \<and> content (format_message m) = (case row_content m of None \<Rightarrow> Text [] | Some c \<Rightarrow> c))"
proof -
  let ?ex = "spec_exclude exclude_message_id rows"
  let ?w = "spec_window exclude_message_id rows"
  have run: "get_chat_history select chat_id exclude_message_id = map format_message ?w"
    using assms(1) spec_exclude_eq [OF assms(2), of exclude_message_id]
    by (simp add: get_chat_history_def Let_def last10_def spec_window_def)
  have len: "length (map format_message ?w) = min 10 (length ?ex)"
    by (simp add: spec_window_def)
  have suf: "suffix ?w ?ex"
    by (simp add: spec_window_def suffix_drop)
  have sub: "subseq ?ex rows"
    by (cases exclude_message_id) (simp_all add: spec_exclude_def)
  have absent: "\<forall>i. exclude_message_id = Some i \<longrightarrow> (\<forall>m \<in> set ?w. row_id m \<noteq> i)"
  proof (intro allI impI ballI)
    fix i m assume "exclude_message_id = Some i" "m \<in> set ?w"
    then have "m \<in> set (filter (\<lambda>m. row_id m \<noteq> i) rows)"
      by (auto simp: spec_window_def spec_exclude_def dest: in_set_dropD)
    then show "row_id m \<noteq> i" by simp
  qed
  have all: "length ?ex \<le> 10 \<longrightarrow> ?w = ?ex"
    by (simp add: spec_window_def)
  have fmt: "\<forall>m. role (format_message m) = (case row_role m of None \<Rightarrow> Text ''user'' | Some r \<Rightarrow> r)
           \<and> content (format_message m) = (case row_content m of None \<Rightarrow> Text [] | Some c \<Rightarrow> c)"
    by (simp add: format_message_def)
  from run len suf sub absent all fmt show ?thesis
    by (simp only: simp_thms)
qed

text \<open>
  Twelve earlier messages and the current one, number 13, excluded: the window is the
  messages 3 to 12.
\<close>

theorem history_window_witness:
  "get_chat_history (\<lambda>chat_id. Inr (map example_row [1..<14])) ''chat'' (Some ''13'')
     = map format_message (map example_row [3..<13])
   \<and> length (get_chat_history (\<lambda>chat_id. Inr (map example_row [1..<14])) ''chat'' (Some ''13'')) = 10"
proof -
  let ?rows = "map example_row [1..<14]"
  have h1: "(\<lambda>chat_id :: string. (Inr ?rows :: exception + message_row list)) ''chat'' = Inr ?rows"
    by simp
  have h2: "\<forall>m \<in> set ?rows. row_id m \<noteq> []"
    by code_simp
  note t = history_window [of "\<lambda>chat_id. Inr ?rows" "''chat''" ?rows "Some ''13''", OF h1 h2]
  have w: "spec_window (Some ''13'') ?rows = map example_row [3..<13]"
    by code_simp
  have e: "length (spec_exclude (Some ''13'') ?rows) = 12"
    by code_simp
  from t w e show ?thesis by simp
qed

section \<open>What the stages of a request leave unchanged\<close>

lemma download_schema_frame:
  "download_schema sv project_id project_docs w = (r, w') \<Longrightarrow>
   messages w' = messages w \<and> executed_sql w' = executed_sql w \<and> rag_calls w' = rag_calls w"
  by (auto simp: download_schema_def split: option.splits)

lemma download_structured_frame:
  "download_structured sv temp_dir docs w = (r, w') \<Longrightarrow>
   messages w' = messages w \<and> executed_sql w' = executed_sql w \<and> rag_calls w' = rag_calls w"
proof (induction docs arbitrary: w r w')
  case Nil
  then show ?case by simp
next
  case (Cons doc rest)
  show ?case
  proof (cases "download_file sv (s3_key doc)")
    case (Some e)
    with Cons.prems show ?thesis by simp
  next
    case None
    obtain r1 w1 where rec:
      "download_structured sv temp_dir rest (w\<lparr>downloaded := downloaded w @ [s3_key doc]\<rparr>) = (r1, w1)"
      by (cases "download_structured sv temp_dir rest (w\<lparr>downloaded := downloaded w @ [s3_key doc]\<rparr>)")
    from Cons.IH [OF rec] have
      "messages w1 = messages w \<and> executed_sql w1 = executed_sql w \<and> rag_calls w1 = rag_calls w"
      by simp
    moreover from Cons.prems None rec have "w' = w1"
      by (cases r1) auto
    ultimately show ?thesis by simp
  qed
qed

lemma run_smart_agent_frame:
  "run_smart_agent sv project_id message_content schema_path structured_files w = (r, w') \<Longrightarrow>
   messages w' = messages w \<and> rag_calls w' = rag_calls w"
proof -
  assume run: "run_smart_agent sv project_id message_content schema_path structured_files w = (r, w')"
  obtain r1 w1 where dl:
    "download_structured sv (''/tmp/csv_agent/'' @ project_id) structured_files w = (r1, w1)"
    by (cases "download_structured sv (''/tmp/csv_agent/'' @ project_id) structured_files w")
  from download_structured_frame [OF dl] have f: "messages w1 = messages w \<and> rag_calls w1 = rag_calls w"
    by simp
  from run dl have "messages w' = messages w1 \<and> rag_calls w' = rag_calls w1"
    by (auto simp: run_smart_agent_def split: sum.splits prod.splits)
  with f show ?thesis by simp
qed

lemma structured_branch_frame:
  "structured_branch sv project_id message_content project_docs w = (text, w') \<Longrightarrow>
   messages w' = messages w \<and> rag_calls w' = rag_calls w"
proof -
  assume sb: "structured_branch sv project_id message_content project_docs w = (text, w')"
  obtain sp w1 where ds: "download_schema sv project_id project_docs w = (sp, w1)"
    by (cases "download_schema sv project_id project_docs w")
  from download_schema_frame [OF ds] have f1: "messages w1 = messages w \<and> rag_calls w1 = rag_calls w"
    by simp
  show ?thesis
  proof (cases "filter is_structured project_docs = []")
    case True
    with sb show ?thesis by (simp add: structured_branch_def)
  next
    case False
    show ?thesis
    proof (cases sp)
      case None
      with sb ds False f1 show ?thesis by (simp add: structured_branch_def)
    next
      case (Some schema_path)
      obtain r2 w2 where rs:
        "run_smart_agent sv project_id message_content schema_path (filter is_structured project_docs) w1
           = (r2, w2)"
        by (cases "run_smart_agent sv project_id message_content schema_path
                     (filter is_structured project_docs) w1")
      from run_smart_agent_frame [OF rs] have "messages w2 = messages w1 \<and> rag_calls w2 = rag_calls w1" .
      moreover from sb ds False Some rs have "w' = w2"
        by (cases r2) (simp_all add: structured_branch_def)
      ultimately show ?thesis using f1 by simp
    qed
  qed
qed

lemma unstructured_branch_frame:
  "unstructured_branch sv chat_id current_message_id message_content w = (r, w') \<Longrightarrow>
   messages w' = messages w"
  by (auto simp: unstructured_branch_def Let_def split: option.splits sum.splits if_splits)





section \<open>The user message\<close>

text \<open>
  Claim C9. Once the user message is inserted it stays stored: whatever happens later in
  the request (the documents cannot be read, the structured branch fails, the unstructured
  branch raises, the assistant message cannot be stored), the stored messages at the end
  of the request begin with the messages stored before it followed by the user message.
\<close>

theorem user_message_stays_persisted:
  assumes "insert_user sv = Inserted new_id"
  shows "prefix
           (messages w
              @ [\<lparr>msg_id = new_id, msg_chat_id = chat_id, msg_clerk_id = current_user_clerk_id,
                   msg_role = user_role, msg_content = message_content, msg_citations = []\<rparr>])
           (messages (snd (send_message sv project_id chat_id message_content
                             current_user_clerk_id w)))"
proof -
  let ?user = "\<lparr>msg_id = new_id, msg_chat_id = chat_id, msg_clerk_id = current_user_clerk_id,
                 msg_role = user_role, msg_content = message_content, msg_citations = []\<rparr>"
  let ?w1 = "w\<lparr>messages := messages w @ [?user]\<rparr>"
  let ?run = "send_message sv project_id chat_id message_content current_user_clerk_id w"
  have ins: "supabase_insert (insert_user sv)
               (\<lambda>i. \<lparr>msg_id = i, msg_chat_id = chat_id, msg_clerk_id = current_user_clerk_id,
                      msg_role = user_role, msg_content = message_content, msg_citations = []\<rparr>) w
             = (Inr [?user], ?w1)"
    using assms by (simp add: supabase_insert_def)
  show ?thesis
  proof (cases "select_documents sv")
    case (Inl e)
    with ins have "snd ?run = ?w1" by (simp add: send_message_def)
    then show ?thesis by simp
  next
    case (Inr project_docs)
    obtain csv w2 where sb:
      "structured_branch sv project_id message_content project_docs ?w1 = (csv, w2)"
      by (cases "structured_branch sv project_id message_content project_docs ?w1")
    obtain r w3 where ub:
      "unstructured_branch sv chat_id new_id message_content w2 = (r, w3)"
      by (cases "unstructured_branch sv chat_id new_id message_content w2")
    from structured_branch_frame [OF sb] unstructured_branch_frame [OF ub]
    have m3: "messages w3 = messages w @ [?user]" by simp
    show ?thesis
    proof (cases r)
      case (Inl e)
      with ins Inr sb ub have "snd ?run = w3" by (simp add: send_message_def)
      with m3 show ?thesis by simp
    next
      case r: (Inr answer)
      obtain rag citations where answer: "answer = (rag, citations)" by (cases answer)
      show ?thesis
      proof (cases "insert_assistant sv")
        case (InsertRaises e)
        with ins Inr sb ub r answer have "snd ?run = w3"
          by (simp add: send_message_def supabase_insert_def)
        with m3 show ?thesis by simp
      next
        case InsertNoData
        with ins Inr sb ub r answer have "snd ?run = w3"
          by (simp add: send_message_def supabase_insert_def)
        with m3 show ?thesis by simp
      next
        case (Inserted ai_id)
        with ins Inr sb ub r answer have
          "snd ?run = w3\<lparr>messages := messages w3 @
             [\<lparr>msg_id = ai_id, msg_chat_id = chat_id, msg_clerk_id = current_user_clerk_id,
               msg_role = assistant_role,
               msg_content = combine_responses csv (suppress_generic rag),
               msg_citations = citations\<rparr>]\<rparr>"
          by (simp add: send_message_def supabase_insert_def Let_def)
        with m3 show ?thesis by simp
      qed
    qed
  qed
qed


text \<open>
  Both pipelines fail: every download fails and the unstructured agent raises. The request
  ends with status 500 and the user message is stored.
\<close>

theorem user_message_stays_persisted_witness:
  "insert_user
     (example_services\<lparr>download_file := (\<lambda>key. Some (Exception ''NoSuchKey'')),
        invoke_rag_agent :=
          (\<lambda>kind chat_history message_content. Inl (Exception ''connection reset''))\<rparr>)
     = Inserted ''m1''
   \<and> send_message
       (example_services\<lparr>download_file := (\<lambda>key. Some (Exception ''NoSuchKey'')),
          invoke_rag_agent :=
            (\<lambda>kind chat_history message_content. Inl (Exception ''connection reset''))\<rparr>)
       ''p1'' ''c1'' ''How many sales?'' ''u1'' empty_world
     = (Inl (HTTPException 500
               ''An internal server error occurred while creating message: connection reset''),
        \<lparr>messages =
           [\<lparr>msg_id = ''m1'', msg_chat_id = ''c1'', msg_clerk_id = ''u1'', msg_role = ''user'',
             msg_content = ''How many sales?'', msg_citations = []\<rparr>],
         downloaded = [], executed_sql = [],
         rag_calls = [(SimpleRag, ''How many sales?'')]\<rparr>)
   \<and> prefix
       (messages empty_world
          @ [\<lparr>msg_id = ''m1'', msg_chat_id = ''c1'', msg_clerk_id = ''u1'', msg_role = user_role,
               msg_content = ''How many sales?'', msg_citations = []\<rparr>])
       (messages (snd (send_message
          (example_services\<lparr>download_file := (\<lambda>key. Some (Exception ''NoSuchKey'')),
             invoke_rag_agent :=
               (\<lambda>kind chat_history message_content. Inl (Exception ''connection reset''))\<rparr>)
          ''p1'' ''c1'' ''How many sales?'' ''u1'' empty_world)))"
proof -
  let ?sv = "example_services\<lparr>download_file := (\<lambda>key. Some (Exception ''NoSuchKey'')),
        invoke_rag_agent :=
          (\<lambda>kind chat_history message_content. Inl (Exception ''connection reset''))\<rparr>"
  have h: "insert_user ?sv = Inserted ''m1''"
    by (simp add: example_services_def)
  have run: "send_message ?sv ''p1'' ''c1'' ''How many sales?'' ''u1'' empty_world
     = (Inl (HTTPException 500
               ''An internal server error occurred while creating message: connection reset''),
        \<lparr>messages =
           [\<lparr>msg_id = ''m1'', msg_chat_id = ''c1'', msg_clerk_id = ''u1'', msg_role = ''user'',
             msg_content = ''How many sales?'', msg_citations = []\<rparr>],
         downloaded = [], executed_sql = [],
         rag_calls = [(SimpleRag, ''How many sales?'')]\<rparr>)"
    by code_simp
  from h run
    user_message_stays_persisted [OF h, of empty_world "''c1''" "''u1''" "''How many sales?''" "''p1''"]
  show ?thesis by (intro conjI)
qed

section \<open>Download errors in the structured branch\<close>



section \<open>A failure of the unstructured branch\<close>

text \<open>
  Whatever the structured branch does, the unstructured agent is called: with the agent
  type \<open>simple\<close>, which is also the default, the call is recorded in every run that gets
  past the query for the documents.
\<close>

lemma unstructured_branch_calls_agent:
  assumes "get_project_settings sv = Inr (Some ''simple'') \<or> get_project_settings sv = Inr None
           \<or> (\<exists>e. get_project_settings sv = Inl e)"
  shows "rag_calls (snd (unstructured_branch sv chat_id current_message_id message_content w))
           = rag_calls w @ [(SimpleRag, message_content)]"
  using assms
  by (auto simp: unstructured_branch_def Let_def split: sum.splits option.splits)


lemma unstructured_branch_always_attempted:
  assumes "insert_user sv = Inserted new_id"
    and "select_documents sv = Inr project_docs"
    and "get_project_settings sv = Inr (Some ''simple'') \<or> get_project_settings sv = Inr None
         \<or> (\<exists>e. get_project_settings sv = Inl e)"
  shows "rag_calls (snd (send_message sv project_id chat_id message_content
                           current_user_clerk_id w))
           = rag_calls w @ [(SimpleRag, message_content)]"
proof -
  let ?user = "\<lparr>msg_id = new_id, msg_chat_id = chat_id, msg_clerk_id = current_user_clerk_id,
                 msg_role = user_role, msg_content = message_content, msg_citations = []\<rparr>"
  let ?w1 = "w\<lparr>messages := messages w @ [?user]\<rparr>"
  let ?run = "send_message sv project_id chat_id message_content current_user_clerk_id w"
  have ins: "supabase_insert (insert_user sv)
               (\<lambda>i. \<lparr>msg_id = i, msg_chat_id = chat_id, msg_clerk_id = current_user_clerk_id,
                      msg_role = user_role, msg_content = message_content, msg_citations = []\<rparr>) w
             = (Inr [?user], ?w1)"
    using assms(1) by (simp add: supabase_insert_def)
  obtain csv w2 where sb:
    "structured_branch sv project_id message_content project_docs ?w1 = (csv, w2)"
    by (cases "structured_branch sv project_id message_content project_docs ?w1")
  obtain r w3 where ub:
    "unstructured_branch sv chat_id new_id message_content w2 = (r, w3)"
    by (cases "unstructured_branch sv chat_id new_id message_content w2")
  from structured_branch_frame [OF sb] have "rag_calls w2 = rag_calls w" by simp
  with unstructured_branch_calls_agent [OF assms(3), of chat_id new_id message_content w2] ub
  have c3: "rag_calls w3 = rag_calls w @ [(SimpleRag, message_content)]" by simp
  show ?thesis
  proof (cases r)
    case (Inl e)
    with ins assms(2) sb ub have "snd ?run = w3" by (simp add: send_message_def)
    with c3 show ?thesis by simp
  next
    case r: (Inr answer)
    obtain rag citations where answer: "answer = (rag, citations)" by (cases answer)
    show ?thesis
    proof (cases "insert_assistant sv")
      case (InsertRaises e)
      with ins assms(2) sb ub r answer have "snd ?run = w3"
        by (simp add: send_message_def supabase_insert_def)
      with c3 show ?thesis by simp
    next
      case InsertNoData
      with ins assms(2) sb ub r answer have "snd ?run = w3"
        by (simp add: send_message_def supabase_insert_def)
      with c3 show ?thesis by simp
    next
      case (Inserted ai_id)
      with ins assms(2) sb ub r answer have
        "snd ?run = w3\<lparr>messages := messages w3 @
           [\<lparr>msg_id = ai_id, msg_chat_id = chat_id, msg_clerk_id = current_user_clerk_id,
             msg_role = assistant_role,
             msg_content = combine_responses csv (suppress_generic rag),
             msg_citations = citations\<rparr>]\<rparr>"
        by (simp add: send_message_def supabase_insert_def Let_def)
      with c3 show ?thesis by simp
    qed
  qed
qed

text \<open>
  Claim C7. A failure of one branch does not keep the other from running, and a failure of
  the unstructured branch leaves the request to complete with the structured result. The
  structured branch catches its exceptions (lines 529 to 557); the call of the unstructured
  agent (lines 593 to 598) is not guarded. Evaluated here: the structured branch has
  produced its answer, the unstructured agent raises, and the request ends with status 500
  and no assistant message.
\<close>

theorem unstructured_failure_fails_request:
  "send_message
     (example_services\<lparr>invoke_rag_agent :=
        (\<lambda>kind chat_history message_content. Inl (Exception ''connection reset''))\<rparr>)
     ''p1'' ''c1'' ''How many sales?'' ''u1'' empty_world
   = (Inl (HTTPException 500
             ''An internal server error occurred while creating message: connection reset''),
      \<lparr>messages =
         [\<lparr>msg_id = ''m1'', msg_chat_id = ''c1'', msg_clerk_id = ''u1'', msg_role = ''user'',
           msg_content = ''How many sales?'', msg_citations = []\<rparr>],
       downloaded = [''k2'', ''k1''],
       executed_sql = [''SELECT COUNT(*) AS n FROM sales''],
       rag_calls = [(SimpleRag, ''How many sales?'')]\<rparr>)
   \<and> fst (structured_branch
         (example_services\<lparr>invoke_rag_agent :=
            (\<lambda>kind chat_history message_content. Inl (Exception ''connection reset''))\<rparr>)
         ''p1'' ''How many sales?''
         [\<lparr>filename = ''sales.csv'', s3_key = ''k1''\<rparr>, \<lparr>filename = ''schema.json'', s3_key = ''k2''\<rparr>]
         empty_world)
     = ''Executed SQL: `SELECT COUNT(*) AS n FROM sales`'' @ [CHR 0x0A, CHR 0x0A]
         @ ''n'' @ [CHR 0x0A] @ ''-'' @ [CHR 0x0A] @ ''3''"
  by code_simp

end
